theory Spec2Isabelle
  imports Complex_Main "HOL-Library.Sublist"
begin

section \<open>Data model\<close>

text \<open>
  Text (\<open>ustring\<close>) is a list of Unicode code points, so that every string of the program is a value of
  the model; \<open>lit\<close> turns a literal of the source into text. The rows of the table
  \<open>properties\<close> (migration, lines 86 to 110) carry the columns that some request of the
  query service filters on; the other columns and the nested images, features and agent of
  a row are left out. A column without \<open>NOT NULL\<close> is an option, \<open>None\<close> being SQL's \<open>NULL\<close>.
  Generated identifiers (\<open>uuid\<close>) are natural numbers, so every identifier is well formed;
  \<open>numeric\<close> columns and JavaScript numbers are rationals (\<open>NaN\<close> and the infinities are left
  out).
\<close>

type_synonym uuid = nat

type_synonym ustring = "nat list"

definition lit :: "string \<Rightarrow> ustring" where
  "lit s = map of_char s"

record property =
  p_id :: uuid
  p_title :: ustring
  p_description :: ustring
  p_property_type :: ustring
  p_listing_type :: ustring
  p_price :: rat
  p_bedrooms :: "int option"
  p_city :: ustring
  p_status :: "ustring option"
  p_featured :: "bool option"

text \<open>What resolves from an awaited request: \<open>{ data, error }\<close>, each possibly \<open>null\<close>.\<close>

record pg_error =
  code :: string
  error_message :: string

record 'a response =
  data :: "'a option"
  error :: "pg_error option"

text \<open>
  The filter object of \<open>getProperties\<close>. A field that is absent (\<open>undefined\<close>) is \<open>None\<close>.
  The default parameter \<open>filters = {}\<close> is the object with every field absent. The prices
  are numbers and the number of bedrooms is an integer, as the columns they are compared
  with.
\<close>

record filters =
  city :: "ustring option"
  propertyType :: "ustring option"
  minPrice :: "rat option"
  maxPrice :: "rat option"
  bedrooms :: "int option"
  listingType :: "ustring option"
  featured :: "bool option"

definition no_filters :: filters where
  "no_filters = \<lparr>city = None, propertyType = None, minPrice = None, maxPrice = None,
     bedrooms = None, listingType = None, featured = None\<rparr>"

text \<open>JavaScript truthiness of a field: absent, \<open>''\<close>, \<open>0\<close> and \<open>false\<close> are falsy.\<close>

fun truthy_str :: "ustring option \<Rightarrow> bool" where
  "truthy_str None = False"
| "truthy_str (Some s) = (s \<noteq> [])"

fun truthy_num :: "rat option \<Rightarrow> bool" where
  "truthy_num None = False"
| "truthy_num (Some n) = (n \<noteq> 0)"

fun truthy_int :: "int option \<Rightarrow> bool" where
  "truthy_int None = False"
| "truthy_int (Some n) = (n \<noteq> 0)"

fun truthy_bool :: "bool option \<Rightarrow> bool" where
  "truthy_bool None = False"
| "truthy_bool (Some b) = b"

text \<open>The object passed to \<open>createInquiry\<close>; an omitted field is \<open>None\<close>.\<close>

record inquiry =
  name :: "ustring option"
  email :: "ustring option"
  phone :: "ustring option"
  message :: "ustring option"
  property_id :: "uuid option"

text \<open>An element of the data of \<open>getSavedProperties\<close>: \<open>{ property_id, properties }\<close>.\<close>

record saved_item =
  item_property_id :: uuid
  item_properties :: "property option"

section \<open>Requests, as the query builder of the client assembles them\<close>

text \<open>
  A request is the table, the verb with the rows to insert, the resources that
  \<open>.select(...)\<close> embeds, the filters in the order of the calls, the limit, and whether
  \<open>.maybeSingle()\<close> was called. Each builder method adds its part. An embedded resource is
  the pair of the table it is embedded in and the embedded table: \<open>agents(full_name)\<close> in a
  select on \<open>properties\<close> is \<open>(properties, agents)\<close>. The columns that a select names all
  exist in the migration and are not recorded.
\<close>

datatype pgval = PgNull | PgText ustring | PgNum rat | PgInt int | PgBool bool | PgUuid uuid

datatype pgfilter =
    Eq string pgval
  | Gte string pgval
  | Lte string pgval
  | ILike string ustring
  | Or ustring

datatype payload = SavedRow uuid uuid | InquiryRow inquiry

datatype verb = SELECT | INSERT "payload list" | DELETE

record query =
  q_table :: string
  q_verb :: verb
  q_embeds :: "(string \<times> string) list"
  q_filters :: "pgfilter list"
  q_limit :: "nat option"
  q_single :: bool

definition q_from :: "string \<Rightarrow> query" where
  "q_from t = \<lparr>q_table = t, q_verb = SELECT, q_embeds = [], q_filters = [], q_limit = None,
     q_single = False\<rparr>"

definition q_select :: "(string \<times> string) list \<Rightarrow> query \<Rightarrow> query" where
  "q_select embeds q = q\<lparr>q_verb := SELECT, q_embeds := embeds\<rparr>"

definition q_insert :: "payload list \<Rightarrow> query \<Rightarrow> query" where
  "q_insert rows q = q\<lparr>q_verb := INSERT rows\<rparr>"

definition q_delete :: "query \<Rightarrow> query" where
  "q_delete q = q\<lparr>q_verb := DELETE\<rparr>"

definition q_eq :: "string \<Rightarrow> pgval \<Rightarrow> query \<Rightarrow> query" where
  "q_eq c v q = q\<lparr>q_filters := q_filters q @ [Eq c v]\<rparr>"

definition q_gte :: "string \<Rightarrow> pgval \<Rightarrow> query \<Rightarrow> query" where
  "q_gte c v q = q\<lparr>q_filters := q_filters q @ [Gte c v]\<rparr>"

definition q_lte :: "string \<Rightarrow> pgval \<Rightarrow> query \<Rightarrow> query" where
  "q_lte c v q = q\<lparr>q_filters := q_filters q @ [Lte c v]\<rparr>"

definition q_ilike :: "string \<Rightarrow> ustring \<Rightarrow> query \<Rightarrow> query" where
  "q_ilike c pat q = q\<lparr>q_filters := q_filters q @ [ILike c pat]\<rparr>"

definition q_or :: "ustring \<Rightarrow> query \<Rightarrow> query" where
  "q_or s q = q\<lparr>q_filters := q_filters q @ [Or s]\<rparr>"

definition q_limit_to :: "nat \<Rightarrow> query \<Rightarrow> query" where
  "q_limit_to n q = q\<lparr>q_limit := Some n\<rparr>"

definition q_maybeSingle :: "query \<Rightarrow> query" where
  "q_maybeSingle q = q\<lparr>q_single := True\<rparr>"

section \<open>The query service\<close>

text \<open>
  Each function of \<open>propertiesService\<close> builds one request, awaits it and turns the
  response into its result. The client \<open>supabase\<close> is a parameter: a function from the
  request to the response for a read, and a state transformer for a write.
\<close>

definition getProperties_query :: "filters \<Rightarrow> query" where
  "getProperties_query f =
    (let query = q_eq ''status'' (PgText (lit ''active''))
           (q_select [(''properties'', ''property_images''),
                      (''properties'', ''property_features''), (''properties'', ''agents'')]
             (q_from ''properties''));
         query = (if truthy_str (city f)
                  then q_ilike ''city'' (lit ''%'' @ the (city f) @ lit ''%'') query else query);
         query = (if truthy_str (propertyType f)
                  then q_eq ''property_type'' (PgText (the (propertyType f))) query else query);
         query = (if truthy_num (minPrice f)
                  then q_gte ''price'' (PgNum (the (minPrice f))) query else query);
         query = (if truthy_num (maxPrice f)
                  then q_lte ''price'' (PgNum (the (maxPrice f))) query else query);
         query = (if truthy_int (bedrooms f)
                  then q_gte ''bedrooms'' (PgInt (the (bedrooms f))) query else query);
         query = (if truthy_str (listingType f)
                  then q_eq ''listing_type'' (PgText (the (listingType f))) query else query);
         query = (if truthy_bool (featured f)
                  then q_eq ''featured'' (PgBool True) query else query)
     in q_limit_to 20 query)"

definition getProperties :: "(query \<Rightarrow> property list response) \<Rightarrow> filters \<Rightarrow> property list" where
  "getProperties supabase f =
    (let r = supabase (getProperties_query f)
     in if error r \<noteq> None then []
        else (case data r of None \<Rightarrow> [] | Some rows \<Rightarrow> rows))"

definition getPropertyById_query :: "uuid \<Rightarrow> query" where
  "getPropertyById_query i =
     q_maybeSingle (q_eq ''id'' (PgUuid i)
       (q_select [(''properties'', ''property_images''),
                  (''properties'', ''property_features''), (''properties'', ''agents'')]
         (q_from ''properties'')))"

definition getPropertyById :: "(query \<Rightarrow> property response) \<Rightarrow> uuid \<Rightarrow> property option" where
  "getPropertyById supabase i =
    (let r = supabase (getPropertyById_query i)
     in if error r \<noteq> None then None else data r)"

definition getFeaturedProperties_query :: query where
  "getFeaturedProperties_query =
     q_limit_to 6 (q_eq ''featured'' (PgBool True)
       (q_eq ''status'' (PgText (lit ''active''))
         (q_select [(''properties'', ''property_images''), (''properties'', ''agents'')]
           (q_from ''properties''))))"

definition getFeaturedProperties :: "(query \<Rightarrow> property list response) \<Rightarrow> property list" where
  "getFeaturedProperties supabase =
    (let r = supabase getFeaturedProperties_query
     in if error r \<noteq> None then []
        else (case data r of None \<Rightarrow> [] | Some rows \<Rightarrow> rows))"

definition searchProperties_query :: "ustring \<Rightarrow> query" where
  "searchProperties_query query =
     q_limit_to 20
       (q_or (lit ''title.ilike.%'' @ query @ lit ''%,description.ilike.%'' @ query
              @ lit ''%,city.ilike.%'' @ query @ lit ''%'')
         (q_eq ''status'' (PgText (lit ''active''))
           (q_select [(''properties'', ''property_images'')] (q_from ''properties''))))"

definition searchProperties :: "(query \<Rightarrow> property list response) \<Rightarrow> ustring \<Rightarrow> property list" where
  "searchProperties supabase query =
    (let r = supabase (searchProperties_query query)
     in if error r \<noteq> None then []
        else (case data r of None \<Rightarrow> [] | Some rows \<Rightarrow> rows))"

definition createInquiry_query :: "inquiry \<Rightarrow> query" where
  "createInquiry_query inq = q_insert [InquiryRow inq] (q_from ''inquiries'')"

definition createInquiry ::
  "(query \<Rightarrow> 'st \<Rightarrow> unit response \<times> 'st) \<Rightarrow> inquiry \<Rightarrow> 'st \<Rightarrow> bool \<times> 'st" where
  "createInquiry supabase inq st =
    (let (r, st') = supabase (createInquiry_query inq) st
     in if error r \<noteq> None then (False, st') else (True, st'))"

definition saveProperty_query :: "uuid \<Rightarrow> uuid \<Rightarrow> query" where
  "saveProperty_query userId propertyId =
     q_insert [SavedRow userId propertyId] (q_from ''saved_properties'')"

definition saveProperty ::
  "(query \<Rightarrow> 'st \<Rightarrow> unit response \<times> 'st) \<Rightarrow> uuid \<Rightarrow> uuid \<Rightarrow> 'st \<Rightarrow> bool \<times> 'st" where
  "saveProperty supabase userId propertyId st =
    (let (r, st') = supabase (saveProperty_query userId propertyId) st
     in case error r of
          Some e \<Rightarrow> if code e \<noteq> ''PGRST116'' then (False, st') else (True, st')
        | None \<Rightarrow> (True, st'))"

definition removeSavedProperty_query :: "uuid \<Rightarrow> uuid \<Rightarrow> query" where
  "removeSavedProperty_query userId propertyId =
     q_eq ''property_id'' (PgUuid propertyId)
       (q_eq ''user_id'' (PgUuid userId) (q_delete (q_from ''saved_properties'')))"

definition removeSavedProperty ::
  "(query \<Rightarrow> 'st \<Rightarrow> unit response \<times> 'st) \<Rightarrow> uuid \<Rightarrow> uuid \<Rightarrow> 'st \<Rightarrow> bool \<times> 'st" where
  "removeSavedProperty supabase userId propertyId st =
    (let (r, st') = supabase (removeSavedProperty_query userId propertyId) st
     in if error r \<noteq> None then (False, st') else (True, st'))"

definition getSavedProperties_query :: "uuid \<Rightarrow> query" where
  "getSavedProperties_query userId =
     q_eq ''user_id'' (PgUuid userId)
       (q_select [(''saved_properties'', ''properties''), (''properties'', ''property_images'')]
         (q_from ''saved_properties''))"

definition getSavedProperties ::
  "(query \<Rightarrow> saved_item list response) \<Rightarrow> uuid \<Rightarrow> property option list" where
  "getSavedProperties supabase userId =
    (let r = supabase (getSavedProperties_query userId)
     in if error r \<noteq> None then []
        else (case data r of None \<Rightarrow> [] | Some items \<Rightarrow> map item_properties items))"

section \<open>The backend: requests evaluated over the tables of the migration\<close>

subsection \<open>Pattern matching of \<open>ILIKE\<close>\<close>

text \<open>The code points of the characters that the request syntax and the patterns use.\<close>

abbreviation percent :: nat where "percent \<equiv> 37"
abbreviation underscore :: nat where "underscore \<equiv> 95"
abbreviation backslash :: nat where "backslash \<equiv> 92"
abbreviation asterisk :: nat where "asterisk \<equiv> 42"
abbreviation comma :: nat where "comma \<equiv> 44"
abbreviation dot :: nat where "dot \<equiv> 46"
abbreviation close_paren :: nat where "close_paren \<equiv> 41"

text \<open>
  \<open>.ilike(column, pattern)\<close> and the \<open>ilike\<close> items of \<open>.or(...)\<close> are PostgreSQL's \<open>ILIKE\<close>:
  in the pattern \<open>%\<close> stands for any sequence of characters, \<open>_\<close> for any single character,
  and a backslash makes the next character literal; the request layer reads \<open>*\<close> as \<open>%\<close>.
  Case is removed by folding the pattern and the text character by character before they
  are matched, as the database does it under a locale of the C library. Which characters
  are folded depends on the locale of the database, so the
  folding is a parameter \<open>lower\<close> of the backend; \<open>lower_ascii\<close> is the folding of the \<open>C\<close>
  locale, which folds the letters \<open>A\<close> to \<open>Z\<close> and no other character.
\<close>

definition lower_ascii :: "nat \<Rightarrow> nat" where
  "lower_ascii c = (if 65 \<le> c \<and> c \<le> 90 then c + 32 else c)"

definition star :: "nat \<Rightarrow> nat" where
  "star c = (if c = asterisk then percent else c)"

fun like_match :: "ustring \<Rightarrow> ustring \<Rightarrow> bool" where
  "like_match [] s = (s = [])"
| "like_match (p # ps) [] = (p = percent \<and> like_match ps [])"
| "like_match (p # ps) (x # t) =
     (if p = percent then like_match ps (x # t) \<or> like_match (p # ps) t
      else if p = underscore then like_match ps t
      else if p = backslash then (case ps of [] \<Rightarrow> False | e # qs \<Rightarrow> x = e \<and> like_match qs t)
      else x = p \<and> like_match ps t)"

definition pg_ilike :: "(nat \<Rightarrow> nat) \<Rightarrow> ustring \<Rightarrow> ustring \<Rightarrow> bool" where
  "pg_ilike lower pat s = like_match (map lower (map star pat)) (map lower s)"

text \<open>
  What the specification calls containing a query as a case-insensitive substring: after
  folding, the query occurs in the text.
\<close>

definition contains_ci :: "(nat \<Rightarrow> nat) \<Rightarrow> ustring \<Rightarrow> ustring \<Rightarrow> bool" where
  "contains_ci lower q s = sublist (map lower q) (map lower s)"

definition like_special :: "nat \<Rightarrow> bool" where
  "like_special c = (c = percent \<or> c = underscore \<or> c = backslash)"

definition wildcard :: "nat \<Rightarrow> bool" where
  "wildcard c = (c = percent \<or> c = underscore \<or> c = asterisk \<or> c = backslash)"

subsection \<open>Rows and filters\<close>

datatype pgtype = TText | TNum | TInt | TBool | TUuid

fun val_type :: "pgval \<Rightarrow> pgtype option" where
  "val_type PgNull = None"
| "val_type (PgText _) = Some TText"
| "val_type (PgNum _) = Some TNum"
| "val_type (PgInt _) = Some TInt"
| "val_type (PgBool _) = Some TBool"
| "val_type (PgUuid _) = Some TUuid"

text \<open>An \<open>integer\<close> column holds 32 bits; a value beyond them is refused (SQLSTATE \<open>22003\<close>).\<close>

fun in_range :: "pgval \<Rightarrow> bool" where
  "in_range (PgInt i) = (- 2147483648 \<le> i \<and> i \<le> 2147483647)"
| "in_range _ = True"

definition properties_columns :: "(string \<times> pgtype) list" where
  "properties_columns =
     [(''id'', TUuid), (''title'', TText), (''description'', TText),
      (''property_type'', TText), (''listing_type'', TText), (''price'', TNum),
      (''bedrooms'', TInt), (''city'', TText), (''status'', TText), (''featured'', TBool)]"

definition saved_properties_columns :: "(string \<times> pgtype) list" where
  "saved_properties_columns = [(''user_id'', TUuid), (''property_id'', TUuid)]"

fun nullable :: "('a \<Rightarrow> pgval) \<Rightarrow> 'a option \<Rightarrow> pgval" where
  "nullable f None = PgNull"
| "nullable f (Some v) = f v"

definition property_row :: "property \<Rightarrow> (string \<times> pgval) list" where
  "property_row p =
     [(''id'', PgUuid (p_id p)), (''title'', PgText (p_title p)),
      (''description'', PgText (p_description p)),
      (''property_type'', PgText (p_property_type p)),
      (''listing_type'', PgText (p_listing_type p)), (''price'', PgNum (p_price p)),
      (''bedrooms'', nullable PgInt (p_bedrooms p)),
      (''city'', PgText (p_city p)), (''status'', nullable PgText (p_status p)),
      (''featured'', nullable PgBool (p_featured p))]"

definition saved_row :: "uuid \<times> uuid \<Rightarrow> (string \<times> pgval) list" where
  "saved_row r = [(''user_id'', PgUuid (fst r)), (''property_id'', PgUuid (snd r))]"

text \<open>Looking a column up by a name that is given as text.\<close>

definition col_named :: "(string \<times> 'a) list \<Rightarrow> ustring \<Rightarrow> 'a option" where
  "col_named xs c = map_of (map (\<lambda>(n, v). (lit n, v)) xs) c"

text \<open>
  The argument of \<open>.or(...)\<close> is a string that the request layer parses: items separated by
  commas, each \<open>column.operator.value\<close>, the value running to the next comma. A closing
  parenthesis ends the group early, and what follows is a syntax error. Of the items, the
  ones the service writes are modelled (\<open>ilike\<close> on a text column); any other item is
  reported as a syntax error too.
\<close>

fun split_commas :: "ustring \<Rightarrow> ustring list" where
  "split_commas [] = [[]]"
| "split_commas (c # cs) =
     (if c = comma then [] # split_commas cs
      else (case split_commas cs of [] \<Rightarrow> [[c]] | w # ws \<Rightarrow> (c # w) # ws))"

fun break_dot :: "ustring \<Rightarrow> (ustring \<times> ustring) option" where
  "break_dot [] = None"
| "break_dot (c # cs) =
     (if c = dot then Some ([], cs)
      else (case break_dot cs of None \<Rightarrow> None | Some (a, b) \<Rightarrow> Some (c # a, b)))"

definition parse_item :: "(string \<times> pgtype) list \<Rightarrow> ustring \<Rightarrow> (ustring \<times> ustring) option" where
  "parse_item cols item =
     (case break_dot item of
        None \<Rightarrow> None
      | Some (col, rest) \<Rightarrow>
          (case break_dot rest of
             None \<Rightarrow> None
           | Some (opr, val) \<Rightarrow>
               if opr = lit ''ilike'' \<and> col_named cols col = Some TText
               then Some (col, val) else None))"

fun parse_items :: "(string \<times> pgtype) list \<Rightarrow> ustring list \<Rightarrow> (ustring \<times> ustring) list option" where
  "parse_items cols [] = Some []"
| "parse_items cols (i # is) =
     (case parse_item cols i of
        None \<Rightarrow> None
      | Some x \<Rightarrow> (case parse_items cols is of None \<Rightarrow> None | Some xs \<Rightarrow> Some (x # xs)))"

definition parse_or :: "(string \<times> pgtype) list \<Rightarrow> ustring \<Rightarrow> (ustring \<times> ustring) list option" where
  "parse_or cols s =
     (if close_paren \<in> set s then None else parse_items cols (split_commas s))"

definition ilike_col :: "(nat \<Rightarrow> nat) \<Rightarrow> (string \<times> pgval) list \<Rightarrow> ustring \<Rightarrow> ustring \<Rightarrow> bool" where
  "ilike_col lower row c pat =
     (case col_named row c of Some (PgText s) \<Rightarrow> pg_ilike lower pat s | _ \<Rightarrow> False)"

text \<open>Whether the request layer and the database accept a filter on a table.\<close>

fun filter_ok :: "(string \<times> pgtype) list \<Rightarrow> pgfilter \<Rightarrow> bool" where
  "filter_ok cols (Eq c v) = (val_type v \<noteq> None \<and> map_of cols c = val_type v \<and> in_range v)"
| "filter_ok cols (Gte c v) =
     ((val_type v = Some TNum \<or> val_type v = Some TInt) \<and> map_of cols c = val_type v
      \<and> in_range v)"
| "filter_ok cols (Lte c v) =
     ((val_type v = Some TNum \<or> val_type v = Some TInt) \<and> map_of cols c = val_type v
      \<and> in_range v)"
| "filter_ok cols (ILike c pat) = (map_of cols c = Some TText)"
| "filter_ok cols (Or s) = (parse_or cols s \<noteq> None)"

text \<open>Whether a row passes a comparison; a comparison with \<open>NULL\<close> is not true.\<close>

fun compares :: "(string \<times> pgval) list \<Rightarrow> pgfilter \<Rightarrow> bool" where
  "compares row (Eq c v) = (v \<noteq> PgNull \<and> map_of row c = Some v)"
| "compares row (Gte c v) =
     (case (map_of row c, v) of
        (Some (PgNum x), PgNum y) \<Rightarrow> y \<le> x
      | (Some (PgInt x), PgInt y) \<Rightarrow> y \<le> x
      | _ \<Rightarrow> False)"
| "compares row (Lte c v) =
     (case (map_of row c, v) of
        (Some (PgNum x), PgNum y) \<Rightarrow> x \<le> y
      | (Some (PgInt x), PgInt y) \<Rightarrow> x \<le> y
      | _ \<Rightarrow> False)"
| "compares row (ILike c pat) = False"
| "compares row (Or s) = False"

text \<open>Whether a row passes a filter, pattern filters included.\<close>

fun holds ::
  "(nat \<Rightarrow> nat) \<Rightarrow> (string \<times> pgtype) list \<Rightarrow> (string \<times> pgval) list \<Rightarrow> pgfilter \<Rightarrow> bool" where
  "holds lower cols row (ILike c pat) = ilike_col lower row (lit c) pat"
| "holds lower cols row (Or s) =
     (case parse_or cols s of
        None \<Rightarrow> False
      | Some items \<Rightarrow> list_ex (\<lambda>(c, pat). ilike_col lower row c pat) items)"
| "holds lower cols row (Eq c v) = compares row (Eq c v)"
| "holds lower cols row (Gte c v) = compares row (Gte c v)"
| "holds lower cols row (Lte c v) = compares row (Lte c v)"

definition pg_fail :: "string \<Rightarrow> 'a response" where
  "pg_fail c = \<lparr>data = None, error = Some \<lparr>code = c, error_message = []\<rparr>\<rparr>"

definition pg_ok :: "'a option \<Rightarrow> 'a response" where
  "pg_ok d = \<lparr>data = d, error = None\<rparr>"

subsection \<open>Reading \<open>properties\<close>\<close>

text \<open>
  The request layer embeds one table in another only along a foreign key between the two.
  The foreign keys of the migration between its own tables, each as the referencing and
  the referenced table (lines 115, 125, 150 and 158). The column \<open>agent_id\<close> of
  \<open>properties\<close> (line 106) has no \<open>REFERENCES\<close>, so \<open>properties\<close> and \<open>agents\<close> are not
  related, and a select on \<open>properties\<close> that embeds \<open>agents\<close> is refused with the error
  \<open>PGRST200\<close>.
\<close>

definition foreign_keys :: "(string \<times> string) list" where
  "foreign_keys =
     [(''property_images'', ''properties''), (''property_features'', ''properties''),
      (''saved_properties'', ''properties''), (''inquiries'', ''properties'')]"

fun related :: "string \<times> string \<Rightarrow> bool" where
  "related (a, b) = ((a, b) \<in> set foreign_keys \<or> (b, a) \<in> set foreign_keys)"

text \<open>
  The only policy for \<open>SELECT\<close> on \<open>properties\<close> (migration, lines 176 to 178): a row is
  readable when its status is \<open>active\<close>. It has no \<open>TO\<close> clause, so it holds for every role.
\<close>

definition properties_select_policy :: "property \<Rightarrow> bool" where
  "properties_select_policy p = (p_status p = Some (lit ''active''))"

text \<open>
  A select on \<open>properties\<close>, the one table whose rows are modelled for reading. A request
  that embeds an unrelated table or carries a filter that is not accepted is refused with
  an error. Otherwise the response carries the rows
  that the policy lets through and that pass every filter, in the order of the table, cut
  at the limit of the request.
\<close>

definition matching ::
  "(nat \<Rightarrow> nat) \<Rightarrow> (property \<Rightarrow> bool) \<Rightarrow> property list \<Rightarrow> query \<Rightarrow> property list" where
  "matching lower policy tbl q =
     filter (\<lambda>p. list_all (holds lower properties_columns (property_row p)) (q_filters q))
       (filter policy tbl)"

definition pg_select ::
  "(nat \<Rightarrow> nat) \<Rightarrow> (property \<Rightarrow> bool) \<Rightarrow> property list \<Rightarrow> query \<Rightarrow> property list response" where
  "pg_select lower policy tbl q =
     (if q_table q = ''properties'' \<and> q_verb q = SELECT
      then if list_all related (q_embeds q)
           then if list_all (filter_ok properties_columns) (q_filters q)
                then pg_ok (Some (case q_limit q of
                                    None \<Rightarrow> matching lower policy tbl q
                                  | Some n \<Rightarrow> take n (matching lower policy tbl q)))
                else pg_fail ''PGRST100''
           else pg_fail ''PGRST200''
      else pg_fail ''PGRST205'')"


subsection \<open>Writing \<open>saved_properties\<close> and \<open>inquiries\<close>\<close>

record db =
  tbl_properties :: "property list"
  tbl_saved_properties :: "(uuid \<times> uuid) list"
  tbl_inquiries :: "inquiry list"

fun saved_payload :: "verb \<Rightarrow> (uuid \<times> uuid) option" where
  "saved_payload (INSERT [SavedRow u p]) = Some (u, p)"
| "saved_payload _ = None"

fun inquiry_payload :: "verb \<Rightarrow> inquiry option" where
  "inquiry_payload (INSERT [InquiryRow inq]) = Some inq"
| "inquiry_payload _ = None"

text \<open>
  Inserting one row into \<open>saved_properties\<close> for the session identity \<open>auth\<close> (\<open>None\<close> is the
  anonymous role). In the order of the database: the insert policy
  \<open>WITH CHECK (auth.uid() = user_id)\<close> for authenticated sessions (migration, lines 276 to
  279; a refused row is SQLSTATE \<open>42501\<close>), the constraint \<open>UNIQUE(user_id, property_id)\<close>
  (line 152; a second row for the pair is PostgreSQL's \<open>unique_violation\<close>, SQLSTATE
  \<open>23505\<close>, which the request layer hands on as the \<open>code\<close> of the error), and the foreign
  key to \<open>properties\<close> (line 150; SQLSTATE \<open>23503\<close>). An insert without \<open>.select()\<close> resolves
  with \<open>data: null\<close>.
\<close>

definition unique_violation :: string where
  "unique_violation = ''23505''"

definition pg_insert_saved :: "uuid option \<Rightarrow> query \<Rightarrow> db \<Rightarrow> unit response \<times> db" where
  "pg_insert_saved auth q d =
     (if q_table q \<noteq> ''saved_properties'' then (pg_fail ''PGRST205'', d)
      else case saved_payload (q_verb q) of
             None \<Rightarrow> (pg_fail ''PGRST102'', d)
           | Some (u, p) \<Rightarrow>
               if auth \<noteq> Some u then (pg_fail ''42501'', d)
               else if (u, p) \<in> set (tbl_saved_properties d) then (pg_fail unique_violation, d)
               else if p \<notin> set (map p_id (tbl_properties d)) then (pg_fail ''23503'', d)
               else (pg_ok None,
                     d\<lparr>tbl_saved_properties := tbl_saved_properties d @ [(u, p)]\<rparr>))"

text \<open>
  Deleting from \<open>saved_properties\<close> by filter: the rows that the delete policy
  \<open>USING (auth.uid() = user_id)\<close> (lines 281 to 284) lets the session see and that pass every
  filter are removed; matching no row is not an error. The table has no text column, so
  an accepted filter is a comparison.
\<close>

definition pg_delete_saved :: "uuid option \<Rightarrow> query \<Rightarrow> db \<Rightarrow> unit response \<times> db" where
  "pg_delete_saved auth q d =
     (if q_table q = ''saved_properties'' \<and> q_verb q = DELETE
      then if list_all (filter_ok saved_properties_columns) (q_filters q)
           then (pg_ok None,
                 d\<lparr>tbl_saved_properties :=
                     filter (\<lambda>r. \<not> (auth = Some (fst r)
                                    \<and> list_all (compares (saved_row r)) (q_filters q)))
                       (tbl_saved_properties d)\<rparr>)
           else (pg_fail ''PGRST100'', d)
      else (pg_fail ''PGRST205'', d))"

text \<open>
  Inserting one row into \<open>inquiries\<close> (migration, lines 156 to 165): \<open>name\<close>, \<open>email\<close> and
  \<open>message\<close> are \<open>NOT NULL\<close> (SQLSTATE \<open>23502\<close> when one is missing); \<open>phone\<close> and
  \<open>property_id\<close> may be \<open>NULL\<close>; a \<open>property_id\<close> that is given must be the identifier of a
  row of \<open>properties\<close> (\<open>23503\<close>). The insert policy is \<open>WITH CHECK (true)\<close> for every role.
\<close>

definition pg_insert_inquiry :: "query \<Rightarrow> db \<Rightarrow> unit response \<times> db" where
  "pg_insert_inquiry q d =
     (if q_table q \<noteq> ''inquiries'' then (pg_fail ''PGRST205'', d)
      else case inquiry_payload (q_verb q) of
             None \<Rightarrow> (pg_fail ''PGRST102'', d)
           | Some inq \<Rightarrow>
               if name inq = None \<or> email inq = None \<or> message inq = None
               then (pg_fail ''23502'', d)
               else if (case property_id inq of
                          None \<Rightarrow> False
                        | Some i \<Rightarrow> i \<notin> set (map p_id (tbl_properties d)))
               then (pg_fail ''23503'', d)
               else (pg_ok None, d\<lparr>tbl_inquiries := tbl_inquiries d @ [inq]\<rparr>))"

text \<open>The argument that \<open>searchProperties\<close> passes to \<open>.or(...)\<close>.\<close>

definition or_string :: "ustring \<Rightarrow> ustring" where
  "or_string query =
     lit ''title.ilike.%'' @ query @ lit ''%,description.ilike.%'' @ query
     @ lit ''%,city.ilike.%'' @ query @ lit ''%''"

section \<open>Example rows, tables and clients\<close>

definition ex_loft :: property where
  "ex_loft = \<lparr>p_id = 1, p_title = lit ''Loft'', p_description = lit ''Bright'',
     p_property_type = lit ''apartment'', p_listing_type = lit ''sale'', p_price = 250000,
     p_bedrooms = Some 2, p_city = lit ''Springfield'', p_status = Some (lit ''active''),
     p_featured = Some True\<rparr>"

definition ex_sold :: property where
  "ex_sold = \<lparr>p_id = 2, p_title = lit ''Barn'', p_description = lit ''Old'',
     p_property_type = lit ''house'', p_listing_type = lit ''sale'', p_price = 90000,
     p_bedrooms = None, p_city = lit ''Shelbyville'', p_status = Some (lit ''sold''),
     p_featured = Some False\<rparr>"

definition ex_abc :: property where
  "ex_abc = \<lparr>p_id = 3, p_title = lit ''abc'', p_description = lit ''abc'',
     p_property_type = lit ''house'', p_listing_type = lit ''rent'', p_price = 1200,
     p_bedrooms = Some 1, p_city = lit ''abc'', p_status = Some (lit ''active''),
     p_featured = None\<rparr>"

definition ex_filters :: filters where
  "ex_filters = \<lparr>city = Some (lit ''spring''), propertyType = Some (lit ''apartment''),
     minPrice = Some 100000, maxPrice = Some 300000, bedrooms = Some 2,
     listingType = Some (lit ''sale''), featured = Some True\<rparr>"

definition ex_db :: db where
  "ex_db = \<lparr>tbl_properties = [ex_loft, ex_sold], tbl_saved_properties = [], tbl_inquiries = []\<rparr>"

definition ex_db_saved :: db where
  "ex_db_saved = \<lparr>tbl_properties = [ex_loft, ex_sold], tbl_saved_properties = [(7, 1)],
     tbl_inquiries = []\<rparr>"

definition ex_inquiry :: inquiry where
  "ex_inquiry = \<lparr>name = Some (lit ''Ada''), email = Some (lit ''ada@example.org''), phone = None,
     message = Some (lit ''Is it still available?''), property_id = Some 1\<rparr>"

text \<open>A client without connection: every request resolves with an error.\<close>

definition unreachable :: "query \<Rightarrow> 'a response" where
  "unreachable q = pg_fail []"

definition unreachable_write :: "query \<Rightarrow> 'st \<Rightarrow> unit response \<times> 'st" where
  "unreachable_write q st = (pg_fail [], st)"


section \<open>The requests that the service builds\<close>

lemma q_filters_simps:
  "q_filters (q_from t) = []"
  "q_filters (q_select embeds q) = q_filters q"
  "q_filters (q_insert rows q) = q_filters q"
  "q_filters (q_delete q) = q_filters q"
  "q_filters (q_eq c v q) = q_filters q @ [Eq c v]"
  "q_filters (q_gte c v q) = q_filters q @ [Gte c v]"
  "q_filters (q_lte c v q) = q_filters q @ [Lte c v]"
  "q_filters (q_ilike c pat q) = q_filters q @ [ILike c pat]"
  "q_filters (q_or s q) = q_filters q @ [Or s]"
  "q_filters (q_limit_to n q) = q_filters q"
  "q_filters (q_maybeSingle q) = q_filters q"
  by (simp_all add: q_from_def q_select_def q_insert_def q_delete_def q_eq_def q_gte_def
      q_lte_def q_ilike_def q_or_def q_limit_to_def q_maybeSingle_def)

lemma lit_percent: "lit ''%'' = [percent]"
  by (simp add: lit_def)


section \<open>Falsy filter values\<close>

text \<open>
  Claim C9. In the filter object of \<open>getProperties\<close>, a field whose value is falsy (the
  empty string for \<open>city\<close>, \<open>propertyType\<close> and \<open>listingType\<close>, the number 0 for \<open>minPrice\<close>,
  \<open>maxPrice\<close> and \<open>bedrooms\<close>, \<open>false\<close> for \<open>featured\<close>) gives the very request that the
  absent field gives, whatever the other fields are. With no truthy field the request
  carries the status constraint alone, and a call with \<open>bedrooms: 0\<close> and \<open>featured: false\<close>
  returns what the call without filters returns, for every client.
\<close>

theorem falsy_filter_adds_no_constraint:
  "getProperties_query (f\<lparr>city := Some []\<rparr>) = getProperties_query (f\<lparr>city := None\<rparr>)
   \<and> getProperties_query (f\<lparr>propertyType := Some []\<rparr>)
       = getProperties_query (f\<lparr>propertyType := None\<rparr>)
   \<and> getProperties_query (f\<lparr>minPrice := Some 0\<rparr>) = getProperties_query (f\<lparr>minPrice := None\<rparr>)
   \<and> getProperties_query (f\<lparr>maxPrice := Some 0\<rparr>) = getProperties_query (f\<lparr>maxPrice := None\<rparr>)
   \<and> getProperties_query (f\<lparr>bedrooms := Some 0\<rparr>) = getProperties_query (f\<lparr>bedrooms := None\<rparr>)
   \<and> getProperties_query (f\<lparr>listingType := Some []\<rparr>)
       = getProperties_query (f\<lparr>listingType := None\<rparr>)
   \<and> getProperties_query (f\<lparr>featured := Some False\<rparr>)
       = getProperties_query (f\<lparr>featured := None\<rparr>)
   \<and> q_filters (getProperties_query no_filters) = [Eq ''status'' (PgText (lit ''active''))]
   \<and> getProperties supabase (no_filters\<lparr>bedrooms := Some 0, featured := Some False\<rparr>)
       = getProperties supabase no_filters"
  by (simp add: getProperties_query_def getProperties_def no_filters_def q_filters_simps Let_def
      cong: if_cong)

section \<open>Patterns without wildcards match substrings\<close>

lemma like_match_percent:
  "like_match (percent # r) s = (\<exists>a b. s = a @ b \<and> like_match r b)"
proof (induction s)
  case Nil
  then show ?case by simp
next
  case (Cons x t)
  then show ?case by (auto simp: Cons_eq_append_conv)
qed

lemma like_match_literal:
  "\<forall>c\<in>set q. \<not> like_special c \<Longrightarrow> like_match (q @ r) s = (\<exists>t. s = q @ t \<and> like_match r t)"
proof (induction q arbitrary: s)
  case Nil
  then show ?case by simp
next
  case (Cons c q)
  show ?case
  proof (cases s)
    case Nil
    with Cons.prems show ?thesis by (simp add: like_special_def)
  next
    case (Cons x t)
    with Cons.prems Cons.IH[of t] show ?thesis by (auto simp: like_special_def)
  qed
qed

lemma like_match_contains:
  assumes "\<forall>c\<in>set q. \<not> like_special c"
  shows "like_match (percent # q @ [percent]) s = sublist q s"
  using assms by (auto simp: like_match_percent like_match_literal sublist_def)

lemma wildcard_like_special: "like_special c \<Longrightarrow> wildcard c"
  unfolding like_special_def wildcard_def by blast

lemma star_id: "\<forall>c\<in>set q. \<not> wildcard c \<Longrightarrow> map star q = q"
  by (induction q) (auto simp: star_def wildcard_def)

lemma pg_ilike_contains:
  assumes pct: "lower percent = percent"
    and sp: "\<And>c. like_special (lower c) \<Longrightarrow> like_special c"
    and q: "\<forall>c\<in>set q. \<not> wildcard c"
  shows "pg_ilike lower (percent # q @ [percent]) s = contains_ci lower q s"
proof -
  have plain: "\<forall>c\<in>set (map lower q). \<not> like_special c"
  proof -
    have "\<not> like_special (lower c)" if "c \<in> set q" for c
      using q that sp[of c] wildcard_like_special[of c] by blast
    then show ?thesis by simp
  qed
  have st: "star percent = percent"
    by (simp add: star_def)
  have "map lower (map star (percent # q @ [percent])) = percent # map lower q @ [percent]"
    by (simp add: star_id[OF q] st pct)
  then show ?thesis
    unfolding pg_ilike_def contains_ci_def
    by (simp only: like_match_contains[OF plain])
qed

lemma lower_ascii_syntax:
  "lower_ascii percent = percent" "like_special (lower_ascii c) \<Longrightarrow> like_special c"
  by (auto simp: lower_ascii_def like_special_def split: if_splits)

section \<open>The filter string of the search\<close>

lemma split_commas_plain: "comma \<notin> set a \<Longrightarrow> split_commas a = [a]"
  by (induction a) auto

lemma split_commas_append:
  "comma \<notin> set a \<Longrightarrow> split_commas (a @ comma # b) = a # split_commas b"
  by (induction a) auto

lemma split_or_string:
  assumes "comma \<notin> set q"
  shows "split_commas (or_string q)
     = [lit ''title.ilike.%'' @ q @ lit ''%'', lit ''description.ilike.%'' @ q @ lit ''%'',
        lit ''city.ilike.%'' @ q @ lit ''%'']"
proof -
  have shape: "or_string q = (lit ''title.ilike.%'' @ q @ lit ''%'') @ comma #
      ((lit ''description.ilike.%'' @ q @ lit ''%'') @ comma # (lit ''city.ilike.%'' @ q @ lit ''%''))"
    by (simp add: or_string_def lit_def)
  have a: "comma \<notin> set (lit ''title.ilike.%'' @ q @ lit ''%'')"
    and b: "comma \<notin> set (lit ''description.ilike.%'' @ q @ lit ''%'')"
    and c: "comma \<notin> set (lit ''city.ilike.%'' @ q @ lit ''%'')"
    using assms by (simp_all add: lit_def)
  show ?thesis
    by (simp only: shape split_commas_append[OF a] split_commas_append[OF b]
        split_commas_plain[OF c])
qed

lemma parse_item_ilike:
  "parse_item properties_columns (lit ''title.ilike.%'' @ q @ lit ''%'')
     = Some (lit ''title'', percent # q @ [percent])"
  "parse_item properties_columns (lit ''description.ilike.%'' @ q @ lit ''%'')
     = Some (lit ''description'', percent # q @ [percent])"
  "parse_item properties_columns (lit ''city.ilike.%'' @ q @ lit ''%'')
     = Some (lit ''city'', percent # q @ [percent])"
  by (simp_all add: parse_item_def lit_def col_named_def properties_columns_def)

lemma parse_or_string:
  assumes "comma \<notin> set q" "close_paren \<notin> set q"
  shows "parse_or properties_columns (or_string q)
     = Some [(lit ''title'', percent # q @ [percent]),
             (lit ''description'', percent # q @ [percent]),
             (lit ''city'', percent # q @ [percent])]"
proof -
  have "close_paren \<notin> set (or_string q)"
    using assms by (simp add: or_string_def lit_def)
  then show ?thesis
    by (simp add: parse_or_def split_or_string[OF assms(1)] parse_item_ilike)
qed

lemma property_row_lookup:
  "map_of (property_row p) ''id'' = Some (PgUuid (p_id p))"
  "map_of (property_row p) ''title'' = Some (PgText (p_title p))"
  "map_of (property_row p) ''description'' = Some (PgText (p_description p))"
  "map_of (property_row p) ''property_type'' = Some (PgText (p_property_type p))"
  "map_of (property_row p) ''listing_type'' = Some (PgText (p_listing_type p))"
  "map_of (property_row p) ''price'' = Some (PgNum (p_price p))"
  "map_of (property_row p) ''bedrooms'' = Some (nullable PgInt (p_bedrooms p))"
  "map_of (property_row p) ''city'' = Some (PgText (p_city p))"
  "map_of (property_row p) ''status'' = Some (nullable PgText (p_status p))"
  "map_of (property_row p) ''featured'' = Some (nullable PgBool (p_featured p))"
  by (simp_all add: property_row_def)

lemma property_row_named:
  "col_named (property_row p) (lit ''title'') = Some (PgText (p_title p))"
  "col_named (property_row p) (lit ''description'') = Some (PgText (p_description p))"
  "col_named (property_row p) (lit ''city'') = Some (PgText (p_city p))"
  by (simp_all add: col_named_def property_row_def lit_def)

lemma holds_status_active:
  "holds lower properties_columns (property_row p) (Eq ''status'' (PgText (lit ''active'')))
     = (p_status p = Some (lit ''active''))"
  by (cases "p_status p") (simp_all add: property_row_lookup)

lemma holds_or_string:
  assumes "comma \<notin> set q" "close_paren \<notin> set q"
  shows "holds lower properties_columns (property_row p) (Or (or_string q))
     = (pg_ilike lower (percent # q @ [percent]) (p_title p)
        \<or> pg_ilike lower (percent # q @ [percent]) (p_description p)
        \<or> pg_ilike lower (percent # q @ [percent]) (p_city p))"
  by (simp add: parse_or_string[OF assms] ilike_col_def property_row_named)

lemma searchProperties_filters:
  "q_filters (searchProperties_query q) = [Eq ''status'' (PgText (lit ''active'')), Or (or_string q)]"
  by (simp add: searchProperties_query_def q_filters_simps or_string_def)

lemma searchProperties_query_shape:
  "q_table (searchProperties_query q) = ''properties''"
  "q_verb (searchProperties_query q) = SELECT"
  "q_limit (searchProperties_query q) = Some 20"
  "q_embeds (searchProperties_query q) = [(''properties'', ''property_images'')]"
  by (simp_all add: searchProperties_query_def q_limit_to_def q_or_def q_eq_def q_select_def
      q_from_def)

lemma images_related: "related (''properties'', ''property_images'')"
  by (simp add: foreign_keys_def)

lemma searchProperties_pg:
  assumes "comma \<notin> set q" "close_paren \<notin> set q"
  shows "searchProperties (pg_select lower pol tbl) q
     = take 20 (filter (\<lambda>p. p_status p = Some (lit ''active'')
          \<and> (pg_ilike lower (percent # q @ [percent]) (p_title p)
             \<or> pg_ilike lower (percent # q @ [percent]) (p_description p)
             \<or> pg_ilike lower (percent # q @ [percent]) (p_city p))) (filter pol tbl))"
proof -
  have "filter_ok properties_columns (Eq ''status'' (PgText (lit ''active'')))"
    by (simp add: properties_columns_def)
  moreover have "filter_ok properties_columns (Or (or_string q))"
    by (simp add: parse_or_string[OF assms])
  ultimately have ok: "list_all (filter_ok properties_columns) (q_filters (searchProperties_query q))"
    by (simp add: searchProperties_filters del: filter_ok.simps)
  have m: "matching lower pol tbl (searchProperties_query q)
     = filter (\<lambda>p. p_status p = Some (lit ''active'')
          \<and> (pg_ilike lower (percent # q @ [percent]) (p_title p)
             \<or> pg_ilike lower (percent # q @ [percent]) (p_description p)
             \<or> pg_ilike lower (percent # q @ [percent]) (p_city p))) (filter pol tbl)"
    unfolding matching_def searchProperties_filters
    by (simp add: holds_status_active holds_or_string[OF assms] del: holds.simps)
  show ?thesis
    by (simp add: searchProperties_def pg_select_def searchProperties_query_shape images_related
        ok m pg_ok_def del: related.simps)
qed

lemma searchProperties_contains:
  assumes pct: "lower percent = percent"
    and sp: "\<And>c. like_special (lower c) \<Longrightarrow> like_special c"
    and q: "\<forall>c\<in>set query. \<not> wildcard c \<and> c \<noteq> comma \<and> c \<noteq> close_paren"
  shows "searchProperties (pg_select lower properties_select_policy tbl) query
     = take 20 (filter (\<lambda>p. p_status p = Some (lit ''active'')
          \<and> (contains_ci lower query (p_title p) \<or> contains_ci lower query (p_description p)
             \<or> contains_ci lower query (p_city p))) tbl)"
proof -
  have c: "comma \<notin> set query" and r: "close_paren \<notin> set query"
    and w: "\<forall>c\<in>set query. \<not> wildcard c"
    using q by auto
  have "filter (\<lambda>p. p_status p = Some (lit ''active'') \<and> P p)
          (filter properties_select_policy tbl)
      = filter (\<lambda>p. p_status p = Some (lit ''active'') \<and> P p) tbl" for P
    by (simp add: properties_select_policy_def cong: conj_cong)
  then show ?thesis
    by (simp add: searchProperties_pg[OF c r] pg_ilike_contains[of lower query, OF pct sp w])
qed

section \<open>Search\<close>

text \<open>
  Claim C4, amended. Let the folding of the database leave \<open>%\<close> as it is and fold no other
  character to \<open>%\<close>, \<open>_\<close> or backslash. For a query that contains none of the characters
  \<open>%\<close>, \<open>_\<close>, \<open>*\<close>, backslash, comma and closing parenthesis, \<open>searchProperties\<close> over the
  backend returns the first 20 (in the order of the table) of the rows with active status
  whose title, description or city contains the query without regard to case. So every
  returned row is active and contains the query in one of the three columns, and an active
  row whose city contains the query is returned whenever at most 20 rows match.
\<close>

theorem searchProperties_wildcard_free:
  assumes "lower percent = percent"
    and "\<And>c. like_special (lower c) \<Longrightarrow> like_special c"
    and "\<forall>c\<in>set query. \<not> wildcard c \<and> c \<noteq> comma \<and> c \<noteq> close_paren"
  shows "searchProperties (pg_select lower properties_select_policy tbl) query
     = take 20 (filter (\<lambda>p. p_status p = Some (lit ''active'')
          \<and> (contains_ci lower query (p_title p) \<or> contains_ci lower query (p_description p)
             \<or> contains_ci lower query (p_city p))) tbl)
   \<and> (\<forall>p\<in>set (searchProperties (pg_select lower properties_select_policy tbl) query).
         p_status p = Some (lit ''active'')
         \<and> (contains_ci lower query (p_title p) \<or> contains_ci lower query (p_description p)
            \<or> contains_ci lower query (p_city p)))
   \<and> (\<forall>p\<in>set tbl.
         p_status p = Some (lit ''active'') \<and> contains_ci lower query (p_city p)
         \<and> length (filter (\<lambda>p. p_status p = Some (lit ''active'')
               \<and> (contains_ci lower query (p_title p) \<or> contains_ci lower query (p_description p)
                  \<or> contains_ci lower query (p_city p))) tbl) \<le> 20
         \<longrightarrow> p \<in> set (searchProperties (pg_select lower properties_select_policy tbl) query))"
proof -
  let ?M = "\<lambda>p. p_status p = Some (lit ''active'')
          \<and> (contains_ci lower query (p_title p) \<or> contains_ci lower query (p_description p)
             \<or> contains_ci lower query (p_city p))"
  have eq: "searchProperties (pg_select lower properties_select_policy tbl) query
      = take 20 (filter ?M tbl)"
    by (rule searchProperties_contains[of lower query, OF assms])
  have snd: "?M p" if "p \<in> set (take 20 (filter ?M tbl))" for p
    using in_set_takeD[OF that] by simp
  have thd: "p \<in> set (take 20 (filter ?M tbl))"
    if "p \<in> set tbl" "p_status p = Some (lit ''active'')" "contains_ci lower query (p_city p)"
      "length (filter ?M tbl) \<le> 20" for p
    using that by simp
  show ?thesis
    unfolding eq using snd thd by blast
qed

theorem searchProperties_wildcard_free_witness:
  "searchProperties (pg_select lower_ascii properties_select_policy [ex_loft, ex_sold])
      (lit ''SPRING'') = [ex_loft]
   \<and> \<not> contains_ci lower_ascii (lit ''SPRING'') (p_title ex_loft)
   \<and> \<not> contains_ci lower_ascii (lit ''SPRING'') (p_description ex_loft)"
proof -
  have h: "\<forall>c\<in>set (lit ''SPRING''). \<not> wildcard c \<and> c \<noteq> comma \<and> c \<noteq> close_paren"
    by (simp add: wildcard_def lit_def)
  have e: "take 20 (filter (\<lambda>p. p_status p = Some (lit ''active'')
          \<and> (contains_ci lower_ascii (lit ''SPRING'') (p_title p)
             \<or> contains_ci lower_ascii (lit ''SPRING'') (p_description p)
             \<or> contains_ci lower_ascii (lit ''SPRING'') (p_city p))) [ex_loft, ex_sold])
      = [ex_loft]"
    by code_simp
  have n: "\<not> contains_ci lower_ascii (lit ''SPRING'') (p_title ex_loft)"
    "\<not> contains_ci lower_ascii (lit ''SPRING'') (p_description ex_loft)"
    by code_simp+
  have r: "searchProperties (pg_select lower_ascii properties_select_policy [ex_loft, ex_sold])
        (lit ''SPRING'')
      = take 20 (filter (\<lambda>p. p_status p = Some (lit ''active'')
          \<and> (contains_ci lower_ascii (lit ''SPRING'') (p_title p)
             \<or> contains_ci lower_ascii (lit ''SPRING'') (p_description p)
             \<or> contains_ci lower_ascii (lit ''SPRING'') (p_city p))) [ex_loft, ex_sold])"
    using searchProperties_wildcard_free[of lower_ascii "lit ''SPRING''" "[ex_loft, ex_sold]",
        OF lower_ascii_syntax h]
    by (rule conjunct1)
  show ?thesis
    unfolding r e using n by blast
qed

text \<open>
  The query \<open>a_c\<close> returns a row whose title, description and city are \<open>abc\<close>: the
  underscore of the query matches any character. Query and text are in lower case, so
  the folding changes neither.
\<close>

theorem searchProperties_wildcard_counterexample:
  "searchProperties (pg_select lower_ascii properties_select_policy [ex_abc]) (lit ''a_c'')
     = [ex_abc]
   \<and> \<not> contains_ci lower_ascii (lit ''a_c'') (p_title ex_abc)
   \<and> \<not> contains_ci lower_ascii (lit ''a_c'') (p_description ex_abc)
   \<and> \<not> contains_ci lower_ascii (lit ''a_c'') (p_city ex_abc)"
  by code_simp

section \<open>Limits of the list operations\<close>

lemma getProperties_query_shape:
  "q_table (getProperties_query f) = ''properties''"
  "q_verb (getProperties_query f) = SELECT"
  "q_limit (getProperties_query f) = Some 20"
  "q_embeds (getProperties_query f)
     = [(''properties'', ''property_images''), (''properties'', ''property_features''),
        (''properties'', ''agents'')]"
  by (simp_all add: getProperties_query_def Let_def q_limit_to_def q_ilike_def q_gte_def q_lte_def
      q_eq_def q_select_def q_from_def)

lemma getFeaturedProperties_query_shape:
  "q_table getFeaturedProperties_query = ''properties''"
  "q_verb getFeaturedProperties_query = SELECT"
  "q_limit getFeaturedProperties_query = Some 6"
  "q_filters getFeaturedProperties_query
     = [Eq ''status'' (PgText (lit ''active'')), Eq ''featured'' (PgBool True)]"
  "q_embeds getFeaturedProperties_query
     = [(''properties'', ''property_images''), (''properties'', ''agents'')]"
  by (simp_all add: getFeaturedProperties_query_def q_limit_to_def q_eq_def q_select_def
      q_from_def)

lemma pg_select_rows:
  "(case data (pg_select lower pol tbl q) of None \<Rightarrow> [] | Some rows \<Rightarrow> rows)
     = (if q_table q = ''properties'' \<and> q_verb q = SELECT \<and> list_all related (q_embeds q)
           \<and> list_all (filter_ok properties_columns) (q_filters q)
        then (case q_limit q of
                None \<Rightarrow> matching lower pol tbl q
              | Some n \<Rightarrow> take n (matching lower pol tbl q))
        else [])"
  by (simp add: pg_select_def pg_ok_def pg_fail_def)

lemma pg_select_length:
  "q_limit q = Some n \<Longrightarrow>
     length (case data (pg_select lower pol tbl q) of None \<Rightarrow> [] | Some rows \<Rightarrow> rows) \<le> n"
  by (simp add: pg_select_rows)


text \<open>
  Claim C3. Over the backend, for every folding, table, filter object and query,
  \<open>getProperties\<close> and \<open>searchProperties\<close> return at most 20 rows and \<open>getFeaturedProperties\<close>
  at most 6: the request carries the limit, the backend truncates to it, and an error gives
  the empty list.
\<close>

theorem results_within_limit:
  "length (getProperties (pg_select lower properties_select_policy tbl) f) \<le> 20
   \<and> length (searchProperties (pg_select lower properties_select_policy tbl) query) \<le> 20
   \<and> length (getFeaturedProperties (pg_select lower properties_select_policy tbl)) \<le> 6"
proof -
  have "length (getProperties (pg_select lower properties_select_policy tbl) f) \<le> 20"
    using pg_select_length[OF getProperties_query_shape(3), of lower properties_select_policy tbl f]
    by (simp add: getProperties_def Let_def)
  moreover have "length (searchProperties (pg_select lower properties_select_policy tbl) query) \<le> 20"
    using pg_select_length[OF searchProperties_query_shape(3), of lower properties_select_policy
        tbl query]
    by (simp add: searchProperties_def Let_def)
  moreover have "length (getFeaturedProperties (pg_select lower properties_select_policy tbl)) \<le> 6"
    using pg_select_length[OF getFeaturedProperties_query_shape(3), of lower
        properties_select_policy tbl]
    by (simp add: getFeaturedProperties_def Let_def)
  ultimately show ?thesis by blast
qed

section \<open>Requests that embed \<open>agents\<close>\<close>





section \<open>The filters of the list request\<close>







section \<open>One property by identifier\<close>












section \<open>Saved properties and inquiries\<close>

lemma removeSavedProperty_query_shape:
  "q_table (removeSavedProperty_query u p) = ''saved_properties''"
  "q_verb (removeSavedProperty_query u p) = DELETE"
  "q_filters (removeSavedProperty_query u p) = [Eq ''user_id'' (PgUuid u), Eq ''property_id'' (PgUuid p)]"
  by (simp_all add: removeSavedProperty_query_def q_eq_def q_delete_def q_from_def)

lemma pg_delete_saved_pair:
  "pg_delete_saved auth (removeSavedProperty_query u p) d
     = (pg_ok None,
        d\<lparr>tbl_saved_properties :=
            filter (\<lambda>r. \<not> (auth = Some u \<and> r = (u, p))) (tbl_saved_properties d)\<rparr>)"
proof -
  have "(\<lambda>r. \<not> (auth = Some (fst r)
          \<and> list_all (compares (saved_row r)) (q_filters (removeSavedProperty_query u p))))
      = (\<lambda>r. \<not> (auth = Some u \<and> r = (u, p)))"
    by (auto simp: removeSavedProperty_query_shape saved_row_def fun_eq_iff)
  then show ?thesis
    by (simp add: pg_delete_saved_def removeSavedProperty_query_shape
        saved_properties_columns_def)
qed

text \<open>
  Claim C7. \<open>removeSavedProperty\<close> returns \<open>true\<close> exactly when the response carries no error.
  Over the backend the delete by filter never fails, so the result is \<open>true\<close> for every
  session, identity and property; and when the pair is not among the saved ones the table
  is left as it was.
\<close>

theorem removeSavedProperty_missing_pair:
  "fst (removeSavedProperty supabase userId propertyId st)
     = (error (fst (supabase (removeSavedProperty_query userId propertyId) st)) = None)
   \<and> fst (removeSavedProperty (pg_delete_saved auth) userId propertyId d)
   \<and> ((userId, propertyId) \<notin> set (tbl_saved_properties d) \<longrightarrow>
        removeSavedProperty (pg_delete_saved auth) userId propertyId d = (True, d))"
proof -
  have a: "fst (removeSavedProperty supabase userId propertyId st)
     = (error (fst (supabase (removeSavedProperty_query userId propertyId) st)) = None)"
    by (simp add: removeSavedProperty_def Let_def split: prod.split)
  have b: "fst (removeSavedProperty (pg_delete_saved auth) userId propertyId d)"
    by (simp add: removeSavedProperty_def pg_delete_saved_pair pg_ok_def)
  have c: "removeSavedProperty (pg_delete_saved auth) userId propertyId d = (True, d)"
    if "(userId, propertyId) \<notin> set (tbl_saved_properties d)"
  proof -
    from that have "filter (\<lambda>r. \<not> (auth = Some userId \<and> r = (userId, propertyId)))
        (tbl_saved_properties d) = tbl_saved_properties d"
      by (auto simp: filter_id_conv)
    then show ?thesis
      by (simp add: removeSavedProperty_def pg_delete_saved_pair pg_ok_def)
  qed
  show ?thesis using a b c by blast
qed

theorem removeSavedProperty_missing_pair_witness:
  "removeSavedProperty (pg_delete_saved (Some 7)) 7 2 ex_db_saved = (True, ex_db_saved)
   \<and> removeSavedProperty (pg_delete_saved (Some 7)) 7 1 ex_db_saved = (True, ex_db)
   \<and> \<not> fst (removeSavedProperty unreachable_write 7 2 ex_db_saved)"
proof -
  have m: "(7, 2) \<notin> set (tbl_saved_properties ex_db_saved)"
    by (simp add: ex_db_saved_def)
  have p: "removeSavedProperty (pg_delete_saved (Some 7)) 7 1 ex_db_saved = (True, ex_db)"
    by code_simp
  have e: "error (fst (unreachable_write (removeSavedProperty_query 7 2) ex_db_saved)) \<noteq> None"
    by (simp add: unreachable_write_def pg_fail_def)
  show ?thesis
    using removeSavedProperty_missing_pair[of "pg_delete_saved (Some 7)" 7 2 ex_db_saved "Some 7"
        ex_db_saved]
      removeSavedProperty_missing_pair[of unreachable_write 7 2 ex_db_saved "Some 7" ex_db_saved]
      m p e
    by simp
qed

lemma createInquiry_query_shape:
  "q_table (createInquiry_query inq) = ''inquiries''"
  "inquiry_payload (q_verb (createInquiry_query inq)) = Some inq"
  by (simp_all add: createInquiry_query_def q_insert_def q_from_def)

lemma createInquiry_response:
  "fst (createInquiry supabase inq st)
     = (error (fst (supabase (createInquiry_query inq) st)) = None)"
  by (simp add: createInquiry_def Let_def split: prod.split)

lemma createInquiry_accepted:
  assumes "name inq \<noteq> None" "email inq \<noteq> None" "message inq \<noteq> None"
    and "\<forall>i. property_id inq = Some i \<longrightarrow> i \<in> set (map p_id (tbl_properties d))"
  shows "createInquiry pg_insert_inquiry inq d = (True, d\<lparr>tbl_inquiries := tbl_inquiries d @ [inq]\<rparr>)"
  using assms
  by (cases "property_id inq")
    (auto simp: createInquiry_def pg_insert_inquiry_def createInquiry_query_shape pg_ok_def)

lemma createInquiry_rejected:
  assumes "name inq = None \<or> email inq = None \<or> message inq = None"
  shows "createInquiry pg_insert_inquiry inq d = (False, d)"
  using assms
  by (auto simp: createInquiry_def pg_insert_inquiry_def createInquiry_query_shape pg_fail_def)

text \<open>
  Claim C8, amended. \<open>createInquiry\<close> returns \<open>true\<close> exactly when the response carries no
  error. Over the backend it returns \<open>true\<close>, and the inquiry is stored, when name, email and
  message are present and the property reference is absent or names a row of
  \<open>properties\<close>; it returns \<open>false\<close>, and nothing is stored, when name, email or message is
  omitted. The property reference is not among the required fields.
\<close>

theorem createInquiry_required_fields:
  "fst (createInquiry supabase inq st)
     = (error (fst (supabase (createInquiry_query inq) st)) = None)
   \<and> (name inq \<noteq> None \<and> email inq \<noteq> None \<and> message inq \<noteq> None
        \<and> (\<forall>i. property_id inq = Some i \<longrightarrow> i \<in> set (map p_id (tbl_properties d)))
      \<longrightarrow> createInquiry pg_insert_inquiry inq d
            = (True, d\<lparr>tbl_inquiries := tbl_inquiries d @ [inq]\<rparr>))
   \<and> (name inq = None \<or> email inq = None \<or> message inq = None
      \<longrightarrow> createInquiry pg_insert_inquiry inq d = (False, d))"
  using createInquiry_response[of supabase inq st] createInquiry_accepted[of inq d]
    createInquiry_rejected[of inq d]
  by blast

theorem createInquiry_required_fields_witness:
  "createInquiry pg_insert_inquiry ex_inquiry ex_db = (True, ex_db\<lparr>tbl_inquiries := [ex_inquiry]\<rparr>)
   \<and> createInquiry pg_insert_inquiry (ex_inquiry\<lparr>message := None\<rparr>) ex_db = (False, ex_db)
   \<and> \<not> fst (createInquiry unreachable_write ex_inquiry ex_db)"
proof -
  have ok: "name ex_inquiry \<noteq> None \<and> email ex_inquiry \<noteq> None \<and> message ex_inquiry \<noteq> None
      \<and> (\<forall>i. property_id ex_inquiry = Some i \<longrightarrow> i \<in> set (map p_id (tbl_properties ex_db)))"
    by (simp add: ex_inquiry_def ex_db_def ex_loft_def)
  have no: "message (ex_inquiry\<lparr>message := None\<rparr>) = None"
    by simp
  have e: "error (fst (unreachable_write (createInquiry_query ex_inquiry) ex_db)) \<noteq> None"
    by (simp add: unreachable_write_def pg_fail_def)
  have t: "tbl_inquiries ex_db = []"
    by (simp add: ex_db_def)
  show ?thesis
    using createInquiry_required_fields[of pg_insert_inquiry ex_inquiry ex_db ex_db]
      createInquiry_required_fields[of pg_insert_inquiry "ex_inquiry\<lparr>message := None\<rparr>" ex_db ex_db]
      createInquiry_required_fields[of unreachable_write ex_inquiry ex_db ex_db]
      ok no e t
    by simp
qed

text \<open>
  An inquiry without property reference is accepted: the column \<open>property_id\<close> of
  \<open>inquiries\<close> has no \<open>NOT NULL\<close>.
\<close>

theorem createInquiry_without_property_counterexample:
  "property_id (ex_inquiry\<lparr>property_id := None\<rparr>) = None
   \<and> createInquiry pg_insert_inquiry (ex_inquiry\<lparr>property_id := None\<rparr>) ex_db
       = (True, ex_db\<lparr>tbl_inquiries := [ex_inquiry\<lparr>property_id := None\<rparr>]\<rparr>)"
  by code_simp

text \<open>
  Claim C1, at its failing input. The session of identity 7 saves property 1 twice. The
  first call returns \<open>true\<close> and stores the pair. For the second the backend reports the
  violation of \<open>UNIQUE(user_id, property_id)\<close> with the code \<open>23505\<close>; \<open>saveProperty\<close> lets
  only the code \<open>PGRST116\<close> pass as success, so it returns \<open>false\<close>.
\<close>

theorem saveProperty_second_save_false:
  "saveProperty (pg_insert_saved (Some 7)) 7 1 ex_db = (True, ex_db_saved)
   \<and> saveProperty (pg_insert_saved (Some 7)) 7 1 ex_db_saved = (False, ex_db_saved)
   \<and> error (fst (pg_insert_saved (Some 7) (saveProperty_query 7 1) ex_db_saved))
       = Some \<lparr>code = ''23505'', error_message = []\<rparr>"
  by code_simp

section \<open>Errors of the backend\<close>

lemma saveProperty_response:
  "fst (saveProperty supabase u p st)
     = (case error (fst (supabase (saveProperty_query u p) st)) of
          None \<Rightarrow> True | Some e \<Rightarrow> code e = ''PGRST116'')"
  by (simp add: saveProperty_def Let_def split: prod.split option.split)

lemma pg_insert_saved_code:
  assumes "error (fst (pg_insert_saved auth q d)) = Some e"
  shows "code e \<noteq> ''PGRST116''"
  using assms
  by (auto simp: pg_insert_saved_def pg_fail_def pg_ok_def unique_violation_def
      split: if_splits option.splits)

text \<open>
  Claim C2. When the response to its request carries an error, each operation returns its
  safe default: the empty list for \<open>getProperties\<close>, \<open>getFeaturedProperties\<close>,
  \<open>searchProperties\<close> and \<open>getSavedProperties\<close>, \<open>null\<close> for \<open>getPropertyById\<close>, \<open>false\<close> for
  \<open>createInquiry\<close> and \<open>removeSavedProperty\<close>. \<open>saveProperty\<close> returns \<open>false\<close> on every error
  but one with the code that its guard compares with; the backend never answers an insert
  with that code, so \<open>saveProperty\<close> returns \<open>false\<close> on every error of the backend. No
  operation has a raising path: the client is a total function whose failures are values
  of the response.
\<close>

theorem error_response_gives_safe_default:
  "(error (sel (getProperties_query f)) \<noteq> None \<longrightarrow> getProperties sel f = [])
   \<and> (error (one (getPropertyById_query i)) \<noteq> None \<longrightarrow> getPropertyById one i = None)
   \<and> (error (sel getFeaturedProperties_query) \<noteq> None \<longrightarrow> getFeaturedProperties sel = [])
   \<and> (error (sel (searchProperties_query query)) \<noteq> None \<longrightarrow> searchProperties sel query = [])
   \<and> (error (fst (wr (createInquiry_query inq) st)) \<noteq> None \<longrightarrow> \<not> fst (createInquiry wr inq st))
   \<and> (\<forall>e. error (fst (wr (saveProperty_query u p) st)) = Some e \<and> code e \<noteq> ''PGRST116''
          \<longrightarrow> \<not> fst (saveProperty wr u p st))
   \<and> (\<forall>e. error (fst (pg_insert_saved auth (saveProperty_query u p) d)) = Some e
          \<longrightarrow> code e \<noteq> ''PGRST116'')
   \<and> (error (fst (pg_insert_saved auth (saveProperty_query u p) d)) \<noteq> None
        \<longrightarrow> \<not> fst (saveProperty (pg_insert_saved auth) u p d))
   \<and> (error (fst (wr (removeSavedProperty_query u p) st)) \<noteq> None
        \<longrightarrow> \<not> fst (removeSavedProperty wr u p st))
   \<and> (error (sav (getSavedProperties_query u)) \<noteq> None \<longrightarrow> getSavedProperties sav u = [])"
proof -
  have w: "error (fst (wr (removeSavedProperty_query u p) st)) \<noteq> None
        \<longrightarrow> \<not> fst (removeSavedProperty wr u p st)"
    by (simp add: removeSavedProperty_def Let_def split: prod.split)
  have s: "\<forall>e. error (fst (wr (saveProperty_query u p) st)) = Some e \<and> code e \<noteq> ''PGRST116''
          \<longrightarrow> \<not> fst (saveProperty wr u p st)"
    by (simp add: saveProperty_response)
  have n: "\<forall>e. error (fst (pg_insert_saved auth (saveProperty_query u p) d)) = Some e
          \<longrightarrow> code e \<noteq> ''PGRST116''"
    using pg_insert_saved_code[of auth "saveProperty_query u p" d] by blast
  have b: "error (fst (pg_insert_saved auth (saveProperty_query u p) d)) \<noteq> None
        \<longrightarrow> \<not> fst (saveProperty (pg_insert_saved auth) u p d)"
    using n by (auto simp: saveProperty_response split: option.splits)
  have r: "(error (sel (getProperties_query f)) \<noteq> None \<longrightarrow> getProperties sel f = [])
   \<and> (error (one (getPropertyById_query i)) \<noteq> None \<longrightarrow> getPropertyById one i = None)
   \<and> (error (sel getFeaturedProperties_query) \<noteq> None \<longrightarrow> getFeaturedProperties sel = [])
   \<and> (error (sel (searchProperties_query query)) \<noteq> None \<longrightarrow> searchProperties sel query = [])
   \<and> (error (fst (wr (createInquiry_query inq) st)) \<noteq> None \<longrightarrow> \<not> fst (createInquiry wr inq st))
   \<and> (error (sav (getSavedProperties_query u)) \<noteq> None \<longrightarrow> getSavedProperties sav u = [])"
    by (simp add: getProperties_def getPropertyById_def getFeaturedProperties_def
        searchProperties_def getSavedProperties_def createInquiry_response Let_def)
  show ?thesis
    using w s n b r by blast
qed

theorem error_response_gives_safe_default_witness:
  "getProperties unreachable ex_filters = []
   \<and> getPropertyById unreachable 1 = None
   \<and> getFeaturedProperties unreachable = []
   \<and> searchProperties unreachable (lit ''loft'') = []
   \<and> \<not> fst (createInquiry unreachable_write ex_inquiry ex_db)
   \<and> \<not> fst (saveProperty unreachable_write 7 1 ex_db)
   \<and> \<not> fst (saveProperty (pg_insert_saved (Some 7)) 7 1 ex_db_saved)
   \<and> \<not> fst (removeSavedProperty unreachable_write 7 1 ex_db)
   \<and> getSavedProperties unreachable 7 = []"
proof -
  have r: "error ((unreachable :: query \<Rightarrow> property list response) q) \<noteq> None"
    "error ((unreachable :: query \<Rightarrow> property response) q) \<noteq> None"
    "error ((unreachable :: query \<Rightarrow> saved_item list response) q) \<noteq> None" for q
    by (simp_all add: unreachable_def pg_fail_def)
  have w: "error (fst (unreachable_write q ex_db)) = Some \<lparr>code = [], error_message = []\<rparr>" for q
    by (simp add: unreachable_write_def pg_fail_def)
  have d: "error (fst (pg_insert_saved (Some 7) (saveProperty_query 7 1) ex_db_saved)) \<noteq> None"
    by code_simp
  show ?thesis
    using error_response_gives_safe_default[of unreachable ex_filters unreachable 1 "lit ''loft''"
        unreachable_write ex_inquiry ex_db 7 1 "Some 7" ex_db_saved unreachable] r w d
    by simp
qed

end
